theory Spec2Isabelle
  imports Complex_Main
begin

section \<open>Values of the calculator\<close>

text \<open>
  The calculator of \<^verbatim>\<open>calculator.py\<close> works on Python strings and Python floats.

  A Python string is modelled by a \<^typ>\<open>string\<close> with one \<^typ>\<open>char\<close> per code point, so
  the model covers the texts whose code points lie below 256.

  A Python float is modelled by the number it denotes: a finite value is a real number,
  and the two infinities and not-a-number are separate values. Rounding, overflow to
  infinity and the sign of zero are not modelled: the arithmetic on finite values is
  exact. The numeric results stated below are small integers that a double represents
  exactly, or do not depend on the finite arithmetic at all; the one exception is
  \<^verbatim>\<open>-sin(pi/2)\<close>, where the model gives the exact value -1 and the double computed
  by Python is only claimed to lie within a tolerance of it.
\<close>

datatype pyfloat = Fin real | PInf | NInf | NaN

text \<open>
  The exceptions of the source are values. \<^verbatim>\<open>ValueError\<close> carries the reason: the four
  messages the source raises itself (unbalanced brackets, a failed tree construction, a
  character that no pattern matches, an unknown node type) and the domain error of the
  \<^verbatim>\<open>math\<close> module. \<open>Outside_Model\<close> marks the places where Python goes on with a value
  that the model does not represent (a complex number, a string where the annotation
  says float) or reads a spelling of a number that the NUMBER pattern never produces.
\<close>

datatype value_error =
    Unbalanced_Parentheses
  | Tree_Construction
  | Invalid_Character char
  | Unknown_Node_Type string
  | Math_Domain

datatype error =
    ValueError value_error
  | IndexError
  | KeyError
  | NameError string
  | AttributeError
  | ZeroDivisionError
  | Outside_Model

subsection \<open>Float arithmetic\<close>

fun is_neg :: "pyfloat \<Rightarrow> bool" where
  "is_neg (Fin x) = (x < 0)"
| "is_neg NInf = True"
| "is_neg PInf = False"
| "is_neg NaN = False"

fun py_neg :: "pyfloat \<Rightarrow> pyfloat" where
  "py_neg (Fin x) = Fin (- x)"
| "py_neg PInf = NInf"
| "py_neg NInf = PInf"
| "py_neg NaN = NaN"

fun py_abs :: "pyfloat \<Rightarrow> pyfloat" where
  "py_abs (Fin x) = Fin \<bar>x\<bar>"
| "py_abs PInf = PInf"
| "py_abs NInf = PInf"
| "py_abs NaN = NaN"

fun py_add :: "pyfloat \<Rightarrow> pyfloat \<Rightarrow> pyfloat" where
  "py_add NaN b = NaN"
| "py_add a NaN = NaN"
| "py_add (Fin x) (Fin y) = Fin (x + y)"
| "py_add (Fin x) b = b"
| "py_add a (Fin y) = a"
| "py_add a b = (if a = b then a else NaN)"

definition py_sub :: "pyfloat \<Rightarrow> pyfloat \<Rightarrow> pyfloat" where
  "py_sub a b = py_add a (py_neg b)"

fun py_mul :: "pyfloat \<Rightarrow> pyfloat \<Rightarrow> pyfloat" where
  "py_mul NaN b = NaN"
| "py_mul a NaN = NaN"
| "py_mul (Fin x) (Fin y) = Fin (x * y)"
| "py_mul a b =
     (if a = Fin 0 \<or> b = Fin 0 then NaN
      else if is_neg a = is_neg b then PInf else NInf)"

text \<open>\<^verbatim>\<open>a / b\<close> on floats raises \<^verbatim>\<open>ZeroDivisionError\<close> when \<^verbatim>\<open>b\<close> is zero.\<close>

fun py_truediv :: "pyfloat \<Rightarrow> pyfloat \<Rightarrow> error + pyfloat" where
  "py_truediv a (Fin y) =
     (if y = 0 then Inl ZeroDivisionError
      else case a of
        Fin x \<Rightarrow> Inr (Fin (x / y))
      | NaN \<Rightarrow> Inr NaN
      | _ \<Rightarrow> Inr (if is_neg a = (y < 0) then PInf else NInf))"
| "py_truediv a NaN = Inr NaN"
| "py_truediv (Fin x) b = Inr (Fin 0)"
| "py_truediv a b = Inr NaN"

text \<open>
  \<^verbatim>\<open>a ** b\<close> on floats. A zero exponent gives 1 for every base; a zero base with a
  negative exponent raises; a negative base with a fractional exponent gives a complex
  number in Python 3, which the model does not follow.
\<close>

definition is_integral :: "real \<Rightarrow> bool" where
  "is_integral y = (of_int \<lfloor>y\<rfloor> = y)"

definition is_odd_integral :: "real \<Rightarrow> bool" where
  "is_odd_integral y = (is_integral y \<and> odd \<lfloor>y\<rfloor>)"

definition int_power :: "real \<Rightarrow> real \<Rightarrow> real" where
  "int_power x y = (if 0 \<le> y then x ^ nat \<lfloor>y\<rfloor> else 1 / x ^ nat \<lfloor>- y\<rfloor>)"

fun py_pow :: "pyfloat \<Rightarrow> pyfloat \<Rightarrow> error + pyfloat" where
  "py_pow a (Fin y) =
     (if y = 0 then Inr (Fin 1)
      else case a of
        NaN \<Rightarrow> Inr NaN
      | PInf \<Rightarrow> Inr (if 0 < y then PInf else Fin 0)
      | NInf \<Rightarrow> Inr (if 0 < y then (if is_odd_integral y then NInf else PInf) else Fin 0)
      | Fin x \<Rightarrow>
          if x = 0 then (if y < 0 then Inl ZeroDivisionError else Inr (Fin 0))
          else if is_integral y then Inr (Fin (int_power x y))
          else if x < 0 then Inl Outside_Model
          else Inr (Fin (x powr y)))"
| "py_pow a NaN = (if a = Fin 1 then Inr (Fin 1) else Inr NaN)"
| "py_pow NaN b = Inr NaN"
| "py_pow (Fin x) PInf =
     (if \<bar>x\<bar> = 1 then Inr (Fin 1) else if 1 < \<bar>x\<bar> then Inr PInf else Inr (Fin 0))"
| "py_pow (Fin x) NInf =
     (if \<bar>x\<bar> = 1 then Inr (Fin 1) else if 1 < \<bar>x\<bar> then Inr (Fin 0) else Inr PInf)"
| "py_pow a PInf = Inr PInf"
| "py_pow a NInf = Inr (Fin 0)"

text \<open>
  The functions of the \<^verbatim>\<open>math\<close> module raise \<^verbatim>\<open>ValueError: math domain error\<close> outside
  their domain: the trigonometric functions at an infinity, the square root below zero,
  the logarithm at zero and below.
\<close>

fun math_sin :: "pyfloat \<Rightarrow> error + pyfloat" where
  "math_sin (Fin x) = Inr (Fin (sin x))"
| "math_sin NaN = Inr NaN"
| "math_sin a = Inl (ValueError Math_Domain)"

fun math_cos :: "pyfloat \<Rightarrow> error + pyfloat" where
  "math_cos (Fin x) = Inr (Fin (cos x))"
| "math_cos NaN = Inr NaN"
| "math_cos a = Inl (ValueError Math_Domain)"

fun math_tan :: "pyfloat \<Rightarrow> error + pyfloat" where
  "math_tan (Fin x) = Inr (Fin (tan x))"
| "math_tan NaN = Inr NaN"
| "math_tan a = Inl (ValueError Math_Domain)"

fun math_sqrt :: "pyfloat \<Rightarrow> error + pyfloat" where
  "math_sqrt (Fin x) = (if x < 0 then Inl (ValueError Math_Domain) else Inr (Fin (sqrt x)))"
| "math_sqrt PInf = Inr PInf"
| "math_sqrt NInf = Inl (ValueError Math_Domain)"
| "math_sqrt NaN = Inr NaN"

fun math_log :: "pyfloat \<Rightarrow> error + pyfloat" where
  "math_log (Fin x) = (if x \<le> 0 then Inl (ValueError Math_Domain) else Inr (Fin (ln x)))"
| "math_log PInf = Inr PInf"
| "math_log NInf = Inl (ValueError Math_Domain)"
| "math_log NaN = Inr NaN"

fun math_exp :: "pyfloat \<Rightarrow> error + pyfloat" where
  "math_exp (Fin x) = Inr (Fin (exp x))"
| "math_exp PInf = Inr PInf"
| "math_exp NInf = Inr (Fin 0)"
| "math_exp NaN = Inr NaN"

text \<open>The comparison \<^verbatim>\<open>x >= 0\<close>; it is false for not-a-number.\<close>

fun ge_zero :: "pyfloat \<Rightarrow> bool" where
  "ge_zero (Fin x) = (0 \<le> x)"
| "ge_zero PInf = True"
| "ge_zero NInf = False"
| "ge_zero NaN = False"

subsection \<open>Reading a number\<close>

definition is_digit :: "char \<Rightarrow> bool" where
  "is_digit c = (c \<in> set ''0123456789'')"

definition digit_value :: "char \<Rightarrow> nat" where
  "digit_value c = of_char c - 48"

definition digits_value :: "string \<Rightarrow> nat" where
  "digits_value ds = foldl (\<lambda>n c. 10 * n + digit_value c) 0 ds"

text \<open>
  \<^verbatim>\<open>float(s)\<close> on the spellings that the NUMBER pattern produces: digits, or digits, a
  point and digits. Python's \<^verbatim>\<open>float\<close> accepts other spellings too (a sign, an exponent,
  \<^verbatim>\<open>inf\<close>, surrounding blanks) and raises \<^verbatim>\<open>ValueError\<close> on the rest; the model does not
  tell these apart.
\<close>

definition py_float :: "string \<Rightarrow> error + pyfloat" where
  "py_float s =
     (let ip = takeWhile is_digit s; rest = dropWhile is_digit s in
      if ip = [] then Inl Outside_Model
      else if rest = [] then Inr (Fin (of_nat (digits_value ip)))
      else if hd rest = CHR ''.'' \<and> tl rest \<noteq> [] \<and> list_all is_digit (tl rest)
        then Inr (Fin (of_nat (digits_value ip)
                       + of_nat (digits_value (tl rest)) / 10 ^ length (tl rest)))
      else Inl Outside_Model)"

section \<open>The syntax tree\<close>

text \<open>
  The class \<^verbatim>\<open>Node\<close> has four fields: the type, a value that is a float, a string or
  absent, and two children that may be absent.
\<close>

datatype pyval = VFloat pyfloat | VStr string

datatype node =
  Node (ntype: string) (nvalue: "pyval option") (nleft: "node option") (nright: "node option")

section \<open>The tables\<close>

datatype pattern =
    Number_Pattern
  | Alternatives "string list"
  | One_Of "char list"
  | Whitespace

type_synonym patterns = "(pattern \<times> string option) list"
type_synonym token = "string \<times> string"
type_synonym operation_table = "string \<rightharpoonup> (pyfloat \<Rightarrow> pyfloat \<Rightarrow> error + pyfloat)"
type_synonym function_table = "string \<rightharpoonup> (pyfloat \<Rightarrow> error + pyfloat)"

text \<open>
  The six regular expressions of \<^verbatim>\<open>create_token_patterns\<close>, in their order:
  \<^verbatim>\<open>\d+(?:\.\d+)?\<close>, the alternation of the function names, the alternation
  \<^verbatim>\<open>pi|e\<close>, the class \<^verbatim>\<open>[\+\-\*/\^]\<close>, the class \<^verbatim>\<open>[\(\)]\<close> and \<^verbatim>\<open>\s+\<close>.
\<close>

definition create_token_patterns :: patterns where
  "create_token_patterns =
     [(Number_Pattern, Some ''NUMBER''),
      (Alternatives [''sin'', ''cos'', ''tan'', ''sqrt'', ''log'', ''exp'', ''abs''],
         Some ''FUNCTION''),
      (Alternatives [''pi'', ''e''], Some ''CONSTANT''),
      (One_Of ''+-*/^'', Some ''OPERATOR''),
      (One_Of ''()'', Some ''PAREN''),
      (Whitespace, None)]"

definition math_e :: real where
  "math_e = exp 1"

definition create_constants_map :: "string \<rightharpoonup> pyfloat" where
  "create_constants_map = [''pi'' \<mapsto> Fin pi, ''e'' \<mapsto> Fin math_e]"

definition create_operations_map :: operation_table where
  "create_operations_map =
     [''+'' \<mapsto> (\<lambda>a b. Inr (py_add a b)),
      ''-'' \<mapsto> (\<lambda>a b. Inr (py_sub a b)),
      ''*'' \<mapsto> (\<lambda>a b. Inr (py_mul a b)),
      ''/'' \<mapsto> (\<lambda>a b. if b \<noteq> Fin 0 then py_truediv a b else Inr PInf),
      ''^'' \<mapsto> (\<lambda>a b. py_pow a b)]"

definition create_functions_map :: function_table where
  "create_functions_map =
     [''sin'' \<mapsto> math_sin,
      ''cos'' \<mapsto> math_cos,
      ''tan'' \<mapsto> math_tan,
      ''sqrt'' \<mapsto> (\<lambda>x. if ge_zero x then math_sqrt x else Inr NaN),
      ''log'' \<mapsto> math_log,
      ''exp'' \<mapsto> math_exp,
      ''abs'' \<mapsto> (\<lambda>x. Inr (py_abs x))]"

definition create_precedence_map :: "string \<rightharpoonup> int" where
  "create_precedence_map =
     [''+'' \<mapsto> 1, ''-'' \<mapsto> 1, ''*'' \<mapsto> 2, ''/'' \<mapsto> 2, ''^'' \<mapsto> 3, ''u-'' \<mapsto> 4, ''u+'' \<mapsto> 4]"

definition create_right_associative_set :: "string set" where
  "create_right_associative_set = {''^'', ''u-'', ''u+''}"

definition get_compiled_patterns :: patterns where
  "get_compiled_patterns = create_token_patterns"

section \<open>The lexer\<close>

text \<open>
  What \<^verbatim>\<open>\d\<close> and \<^verbatim>\<open>\s\<close> match among the code points below 256: the ten ASCII digits,
  and the blank, the control characters 9 to 13 and 28 to 31, the next-line character
  133 and the no-break space 160.
\<close>

definition is_space :: "char \<Rightarrow> bool" where
  "is_space c = ((of_char c :: nat) \<in> {9, 10, 11, 12, 13, 28, 29, 30, 31, 32, 133, 160})"

text \<open>
  \<open>pattern_match p s\<close> is the length of the match of the pattern at the start of
  \<open>s\<close>, as \<^verbatim>\<open>Pattern.match\<close> finds it: the digits and the blanks are taken greedily, the
  fraction only with a digit after the point, and an alternation takes its first
  alternative that fits.
\<close>

fun pattern_match :: "pattern \<Rightarrow> string \<Rightarrow> nat option" where
  "pattern_match Number_Pattern s =
     (let ip = takeWhile is_digit s; rest = dropWhile is_digit s in
      if ip = [] then None
      else case rest of
        [] \<Rightarrow> Some (length ip)
      | c # r \<Rightarrow>
          if c = CHR ''.'' \<and> takeWhile is_digit r \<noteq> []
          then Some (length ip + 1 + length (takeWhile is_digit r))
          else Some (length ip))"
| "pattern_match (Alternatives ks) s =
     map_option length (find (\<lambda>k. take (length k) s = k) ks)"
| "pattern_match (One_Of cs) s =
     (case s of [] \<Rightarrow> None | c # r \<Rightarrow> if c \<in> set cs then Some 1 else None)"
| "pattern_match Whitespace s =
     (let ws = takeWhile is_space s in if ws = [] then None else Some (length ws))"

fun match_token_at_position ::
  "string \<Rightarrow> nat \<Rightarrow> patterns \<Rightarrow> (string option \<times> string \<times> nat) option" where
  "match_token_at_position expression position [] = None"
| "match_token_at_position expression position ((pattern, token_type) # patterns) =
     (case pattern_match pattern (drop position expression) of
        None \<Rightarrow> match_token_at_position expression position patterns
      | Some n \<Rightarrow> Some (token_type, take n (drop position expression), position + n))"

text \<open>
  The loop of \<^verbatim>\<open>tokenize_expression\<close>. A pattern that matches the empty string would
  keep the position where it is, so the loop is a partial function: \<open>None\<close> is a run
  that does not return. A token type that is \<^verbatim>\<open>None\<close> or empty is falsy and gives
  no token.
\<close>

partial_function (option) tokenize_loop ::
  "string \<Rightarrow> patterns \<Rightarrow> nat \<Rightarrow> token list \<Rightarrow> (error + token list) option" where
  "tokenize_loop expression patterns position tokens =
     (if position < length expression then
        (case match_token_at_position expression position patterns of
           Some (token_type, v, new_position) \<Rightarrow>
             tokenize_loop expression patterns new_position
               (case token_type of
                  Some ty \<Rightarrow> if ty \<noteq> [] then tokens @ [(ty, v)] else tokens
                | None \<Rightarrow> tokens)
         | None \<Rightarrow> Some (Inl (ValueError (Invalid_Character (expression ! position)))))
      else Some (Inr tokens))"

definition tokenize_expression :: "string \<Rightarrow> patterns \<Rightarrow> (error + token list) option" where
  "tokenize_expression expression patterns = tokenize_loop expression patterns 0 []"

section \<open>The parser\<close>

definition create_number_node :: "string \<Rightarrow> error + node" where
  "create_number_node v =
     (case py_float v of
        Inl e \<Rightarrow> Inl e
      | Inr f \<Rightarrow> Inr (Node ''NUMBER'' (Some (VFloat f)) None None))"

definition create_constant_node :: "string \<Rightarrow> (string \<rightharpoonup> pyfloat) \<Rightarrow> error + node" where
  "create_constant_node v constants =
     (case constants v of
        None \<Rightarrow> Inl KeyError
      | Some c \<Rightarrow> Inr (Node ''NUMBER'' (Some (VFloat c)) None None))"

text \<open>\<^verbatim>\<open>s in '+-'\<close> on strings is the substring test.\<close>

fun str_in :: "string \<Rightarrow> string \<Rightarrow> bool" where
  "str_in s [] = (s = [])"
| "str_in s (c # t) = (take (length s) (c # t) = s \<or> str_in s t)"

definition should_be_unary ::
  "string \<Rightarrow> string \<Rightarrow> string option \<Rightarrow> string option \<Rightarrow> bool" where
  "should_be_unary current_token_type current_token_value
                   previous_token_type previous_token_value =
     (if previous_token_type = None
        then current_token_type = ''OPERATOR'' \<and> str_in current_token_value ''+-''
      else if previous_token_type = Some ''PAREN'' \<and> previous_token_value = Some ''(''
        then current_token_type = ''OPERATOR'' \<and> str_in current_token_value ''+-''
      else if previous_token_type = Some ''OPERATOR''
        then current_token_type = ''OPERATOR'' \<and> str_in current_token_value ''+-''
      else False)"

definition process_unary_operator :: "string \<Rightarrow> string" where
  "process_unary_operator token_value = (if token_value = ''-'' then ''u-'' else ''u+'')"

definition create_operator_node :: "string \<Rightarrow> node \<Rightarrow> node \<Rightarrow> node" where
  "create_operator_node operator l r = Node ''OPERATOR'' (Some (VStr operator)) (Some l) (Some r)"

definition create_function_node :: "string \<Rightarrow> node \<Rightarrow> node" where
  "create_function_node func_name argument =
     Node ''FUNCTION'' (Some (VStr func_name)) (Some argument) None"

definition create_unary_node :: "string \<Rightarrow> node \<Rightarrow> node" where
  "create_unary_node operator argument =
     Node ''UNARY'' (Some (VStr operator)) (Some argument) None"

text \<open>
  The stacks are Python lists with the top at the end. \<^verbatim>\<open>pop()\<close> on an empty list
  raises \<^verbatim>\<open>IndexError\<close>.
\<close>

definition list_pop :: "'a list \<Rightarrow> error + ('a \<times> 'a list)" where
  "list_pop xs = (if xs = [] then Inl IndexError else Inr (last xs, butlast xs))"

definition can_pop_operator ::
  "string \<Rightarrow> string list \<Rightarrow> (string \<rightharpoonup> int) \<Rightarrow> string set \<Rightarrow> error + bool" where
  "can_pop_operator current_operator operator_stack precedence right_associative =
     (if operator_stack = [] then Inr False
      else let top_operator = last operator_stack in
        if top_operator = ''('' then Inr False
        else case precedence top_operator of
          None \<Rightarrow> Inr False
        | Some pt \<Rightarrow>
            (case precedence current_operator of
               None \<Rightarrow> Inl KeyError
             | Some pc \<Rightarrow>
                 if pt > pc then Inr True
                 else if pt = pc then Inr (current_operator \<notin> right_associative)
                 else Inr False))"

text \<open>
  \<^verbatim>\<open>pop_operator_and_create_node\<close> changes both stacks in place; the model returns
  them.
\<close>

definition pop_operator_and_create_node ::
  "string list \<Rightarrow> node list \<Rightarrow> function_table \<Rightarrow> (string \<rightharpoonup> int)
   \<Rightarrow> error + (string list \<times> node list)" where
  "pop_operator_and_create_node operator_stack output_stack functions precedence =
     (case list_pop operator_stack of
        Inl e \<Rightarrow> Inl e
      | Inr (operator, ops) \<Rightarrow>
          if functions operator \<noteq> None then
            (case list_pop output_stack of
               Inl e \<Rightarrow> Inl e
             | Inr (arg, out) \<Rightarrow> Inr (ops, out @ [create_function_node operator arg]))
          else if operator \<in> set [''u-'', ''u+''] then
            (case list_pop output_stack of
               Inl e \<Rightarrow> Inl e
             | Inr (arg, out) \<Rightarrow> Inr (ops, out @ [create_unary_node operator arg]))
          else
            (case list_pop output_stack of
               Inl e \<Rightarrow> Inl e
             | Inr (r, out1) \<Rightarrow>
                 (case list_pop out1 of
                    Inl e \<Rightarrow> Inl e
                  | Inr (l, out2) \<Rightarrow> Inr (ops, out2 @ [create_operator_node operator l r]))))"

text \<open>The loop \<^verbatim>\<open>while can_pop_operator(...)\<close> of the OPERATOR branch.\<close>

function reduce_while_can_pop ::
  "string \<Rightarrow> string list \<Rightarrow> node list \<Rightarrow> function_table \<Rightarrow> (string \<rightharpoonup> int) \<Rightarrow> string set
   \<Rightarrow> error + (string list \<times> node list)" where
  "reduce_while_can_pop token_value operator_stack output_stack
                        functions precedence right_associative =
     (case can_pop_operator token_value operator_stack precedence right_associative of
        Inl e \<Rightarrow> Inl e
      | Inr False \<Rightarrow> Inr (operator_stack, output_stack)
      | Inr True \<Rightarrow>
          (case pop_operator_and_create_node operator_stack output_stack functions precedence of
             Inl e \<Rightarrow> Inl e
           | Inr (ops, out) \<Rightarrow>
               reduce_while_can_pop token_value ops out functions precedence right_associative))"
  by pat_completeness auto
termination
  by (relation "measure (\<lambda>(t, ops, out, fs, pr, ra). length ops)")
     (auto simp: pop_operator_and_create_node_def list_pop_def
           split: if_splits sum.splits prod.splits)

text \<open>The loop \<^verbatim>\<open>while operator_stack and operator_stack[-1] != '('\<close>.\<close>

function reduce_until_left_paren ::
  "string list \<Rightarrow> node list \<Rightarrow> function_table \<Rightarrow> (string \<rightharpoonup> int)
   \<Rightarrow> error + (string list \<times> node list)" where
  "reduce_until_left_paren operator_stack output_stack functions precedence =
     (if operator_stack \<noteq> [] \<and> last operator_stack \<noteq> ''('' then
        (case pop_operator_and_create_node operator_stack output_stack functions precedence of
           Inl e \<Rightarrow> Inl e
         | Inr (ops, out) \<Rightarrow> reduce_until_left_paren ops out functions precedence)
      else Inr (operator_stack, output_stack))"
  by pat_completeness auto
termination
  by (relation "measure (\<lambda>(ops, out, fs, pr). length ops)")
     (auto simp: pop_operator_and_create_node_def list_pop_def
           split: if_splits sum.splits prod.splits)

definition process_right_parenthesis ::
  "string list \<Rightarrow> node list \<Rightarrow> function_table \<Rightarrow> (string \<rightharpoonup> int)
   \<Rightarrow> error + (string list \<times> node list)" where
  "process_right_parenthesis operator_stack output_stack functions precedence =
     (case reduce_until_left_paren operator_stack output_stack functions precedence of
        Inl e \<Rightarrow> Inl e
      | Inr (ops, out) \<Rightarrow>
          if ops = [] then Inl (ValueError Unbalanced_Parentheses)
          else let ops1 = butlast ops in
            if ops1 \<noteq> [] \<and> functions (last ops1) \<noteq> None then
              (case list_pop out of
                 Inl e \<Rightarrow> Inl e
               | Inr (argument, out1) \<Rightarrow>
                   Inr (butlast ops1, out1 @ [create_function_node (last ops1) argument]))
            else Inr (ops1, out))"

text \<open>The loop \<^verbatim>\<open>while operator_stack\<close> after the last token.\<close>

function drain_operator_stack ::
  "string list \<Rightarrow> node list \<Rightarrow> function_table \<Rightarrow> (string \<rightharpoonup> int)
   \<Rightarrow> error + (string list \<times> node list)" where
  "drain_operator_stack operator_stack output_stack functions precedence =
     (if operator_stack \<noteq> [] then
        (if last operator_stack = ''('' then Inl (ValueError Unbalanced_Parentheses)
         else case pop_operator_and_create_node operator_stack output_stack
                     functions precedence of
           Inl e \<Rightarrow> Inl e
         | Inr (ops, out) \<Rightarrow> drain_operator_stack ops out functions precedence)
      else Inr (operator_stack, output_stack))"
  by pat_completeness auto
termination
  by (relation "measure (\<lambda>(ops, out, fs, pr). length ops)")
     (auto simp: pop_operator_and_create_node_def list_pop_def
           split: if_splits sum.splits prod.splits)

text \<open>The local variables of \<^verbatim>\<open>build_syntax_tree\<close> that its loop over the tokens changes.\<close>

record parser_state =
  output_stack :: "node list"
  operator_stack :: "string list"
  previous_token_type :: "string option"
  previous_token_value :: "string option"

text \<open>
  One round of the loop over the tokens. The branches are tried in the order of the
  source; a PAREN token that is neither bracket, and a token of an unknown type that is
  not a bracket, change the previous token only.
\<close>

definition process_token ::
  "(string \<rightharpoonup> pyfloat) \<Rightarrow> function_table \<Rightarrow> (string \<rightharpoonup> int) \<Rightarrow> string set
   \<Rightarrow> parser_state \<Rightarrow> token \<Rightarrow> error + parser_state" where
  "process_token constants functions precedence right_associative st tok =
     (let token_type = fst tok; token_value = snd tok in
      if token_type = ''NUMBER'' then
        (case create_number_node token_value of
           Inl e \<Rightarrow> Inl e
         | Inr n \<Rightarrow> Inr (st\<lparr>output_stack := output_stack st @ [n],
                             previous_token_type := Some token_type,
                             previous_token_value := Some token_value\<rparr>))
      else if token_type = ''CONSTANT'' then
        (case create_constant_node token_value constants of
           Inl e \<Rightarrow> Inl e
         | Inr n \<Rightarrow> Inr (st\<lparr>output_stack := output_stack st @ [n],
                             previous_token_type := Some token_type,
                             previous_token_value := Some token_value\<rparr>))
      else if token_type = ''FUNCTION'' then
        Inr (st\<lparr>operator_stack := operator_stack st @ [token_value],
                previous_token_type := Some token_type,
                previous_token_value := Some token_value\<rparr>)
      else if token_type = ''OPERATOR'' then
        (let token_value =
               (if should_be_unary token_type token_value
                     (previous_token_type st) (previous_token_value st)
                then process_unary_operator token_value else token_value) in
         case reduce_while_can_pop token_value (operator_stack st) (output_stack st)
                functions precedence right_associative of
           Inl e \<Rightarrow> Inl e
         | Inr (ops, out) \<Rightarrow>
             Inr (st\<lparr>output_stack := out,
                     operator_stack := ops @ [token_value],
                     previous_token_type := Some token_type,
                     previous_token_value := Some token_value\<rparr>))
      else if token_value = ''('' then
        Inr (st\<lparr>operator_stack := operator_stack st @ [''(''],
                previous_token_type := Some token_type,
                previous_token_value := Some token_value\<rparr>)
      else if token_value = '')'' then
        (case process_right_parenthesis (operator_stack st) (output_stack st)
                functions precedence of
           Inl e \<Rightarrow> Inl e
         | Inr (ops, out) \<Rightarrow>
             Inr (st\<lparr>output_stack := out,
                     operator_stack := ops,
                     previous_token_type := Some token_type,
                     previous_token_value := Some token_value\<rparr>))
      else
        Inr (st\<lparr>previous_token_type := Some token_type,
                previous_token_value := Some token_value\<rparr>))"

fun process_tokens ::
  "(string \<rightharpoonup> pyfloat) \<Rightarrow> function_table \<Rightarrow> (string \<rightharpoonup> int) \<Rightarrow> string set
   \<Rightarrow> parser_state \<Rightarrow> token list \<Rightarrow> error + parser_state" where
  "process_tokens constants functions precedence right_associative st [] = Inr st"
| "process_tokens constants functions precedence right_associative st (tok # tokens) =
     (case process_token constants functions precedence right_associative st tok of
        Inl e \<Rightarrow> Inl e
      | Inr st' \<Rightarrow> process_tokens constants functions precedence right_associative st' tokens)"

definition build_syntax_tree ::
  "token list \<Rightarrow> (string \<rightharpoonup> pyfloat) \<Rightarrow> function_table \<Rightarrow> (string \<rightharpoonup> int) \<Rightarrow> string set
   \<Rightarrow> error + node" where
  "build_syntax_tree tokens constants functions precedence right_associative =
     (case process_tokens constants functions precedence right_associative
             \<lparr>output_stack = [], operator_stack = [],
              previous_token_type = None, previous_token_value = None\<rparr> tokens of
        Inl e \<Rightarrow> Inl e
      | Inr st \<Rightarrow>
          (case drain_operator_stack (operator_stack st) (output_stack st)
                  functions precedence of
             Inl e \<Rightarrow> Inl e
           | Inr (ops, out) \<Rightarrow>
               if length out \<noteq> 1 then Inl (ValueError Tree_Construction)
               else Inr (out ! 0)))"

section \<open>The evaluator\<close>

text \<open>
  \<^verbatim>\<open>evaluate_operator_node\<close>, \<^verbatim>\<open>evaluate_function_node\<close> and \<^verbatim>\<open>evaluate_unary_node\<close> pass
  \<^verbatim>\<open>operations\<close> and \<^verbatim>\<open>functions\<close> on to the recursive call, but not both names are
  parameters there: \<^verbatim>\<open>functions\<close> is no parameter of the first, \<^verbatim>\<open>operations\<close> none of
  the second, and the third has neither. Python looks such a name up in the module's
  global namespace when the call is evaluated and raises \<^verbatim>\<open>NameError\<close> if it is not
  bound. The global namespace is therefore an argument of the model: each of the two
  names is bound to a table or unbound.
\<close>

record globals =
  g_operations :: "operation_table option"
  g_functions :: "function_table option"

text \<open>
  The arguments of a call are evaluated before the call, from left to right: the
  \<^verbatim>\<open>NameError\<close> comes before anything the callee raises. A child that is \<^verbatim>\<open>None\<close> has no
  attribute \<^verbatim>\<open>type\<close>.
\<close>

fun evaluate_number_node :: "node \<Rightarrow> error + pyfloat" where
  "evaluate_number_node (Node t v l r) =
     (case v of
        None \<Rightarrow> Inr (Fin 0)
      | Some (VFloat f) \<Rightarrow> Inr f
      | Some (VStr s) \<Rightarrow> Inl Outside_Model)"

fun lookup_value :: "(string \<rightharpoonup> 'a) \<Rightarrow> pyval option \<Rightarrow> error + 'a" where
  "lookup_value table (Some (VStr s)) =
     (case table s of None \<Rightarrow> Inl KeyError | Some f \<Rightarrow> Inr f)"
| "lookup_value table v = Inl KeyError"

fun evaluate_expression_tree ::
      "globals \<Rightarrow> node \<Rightarrow> operation_table \<Rightarrow> function_table \<Rightarrow> error + pyfloat"
  and evaluate_operator_node :: "globals \<Rightarrow> node \<Rightarrow> operation_table \<Rightarrow> error + pyfloat"
  and evaluate_function_node :: "globals \<Rightarrow> node \<Rightarrow> function_table \<Rightarrow> error + pyfloat"
  and evaluate_unary_node :: "globals \<Rightarrow> node \<Rightarrow> error + pyfloat" where
  "evaluate_expression_tree G (Node t v l r) operations functions =
     (if t = ''NUMBER'' then evaluate_number_node (Node t v l r)
      else if t = ''OPERATOR'' then evaluate_operator_node G (Node t v l r) operations
      else if t = ''FUNCTION'' then evaluate_function_node G (Node t v l r) functions
      else if t = ''UNARY'' then evaluate_unary_node G (Node t v l r)
      else Inl (ValueError (Unknown_Node_Type t)))"
| "evaluate_operator_node G (Node t v l r) operations =
     (case g_functions G of
        None \<Rightarrow> Inl (NameError ''functions'')
      | Some functions \<Rightarrow>
          (case (case l of
                   None \<Rightarrow> Inl AttributeError
                 | Some n \<Rightarrow> evaluate_expression_tree G n operations functions) of
             Inl e \<Rightarrow> Inl e
           | Inr left_value \<Rightarrow>
               (case (case r of
                        None \<Rightarrow> Inl AttributeError
                      | Some n \<Rightarrow> evaluate_expression_tree G n operations functions) of
                  Inl e \<Rightarrow> Inl e
                | Inr right_value \<Rightarrow>
                    (case lookup_value operations v of
                       Inl e \<Rightarrow> Inl e
                     | Inr f \<Rightarrow> f left_value right_value))))"
| "evaluate_function_node G (Node t v l r) functions =
     (case g_operations G of
        None \<Rightarrow> Inl (NameError ''operations'')
      | Some operations \<Rightarrow>
          (case (case l of
                   None \<Rightarrow> Inl AttributeError
                 | Some n \<Rightarrow> evaluate_expression_tree G n operations functions) of
             Inl e \<Rightarrow> Inl e
           | Inr argument_value \<Rightarrow>
               (case lookup_value functions v of
                  Inl e \<Rightarrow> Inl e
                | Inr f \<Rightarrow> f argument_value)))"
| "evaluate_unary_node G (Node t v l r) =
     (case g_operations G of
        None \<Rightarrow> Inl (NameError ''operations'')
      | Some operations \<Rightarrow>
          (case g_functions G of
             None \<Rightarrow> Inl (NameError ''functions'')
           | Some functions \<Rightarrow>
               (case (case l of
                        None \<Rightarrow> Inl AttributeError
                      | Some n \<Rightarrow> evaluate_expression_tree G n operations functions) of
                  Inl e \<Rightarrow> Inl e
                | Inr argument_value \<Rightarrow>
                    if v = Some (VStr ''u-'') then Inr (py_neg argument_value)
                    else Inr argument_value)))"

section \<open>The pipeline\<close>

definition calculate_expression ::
  "globals \<Rightarrow> string \<Rightarrow> patterns \<Rightarrow> (string \<rightharpoonup> pyfloat) \<Rightarrow> function_table \<Rightarrow> operation_table
   \<Rightarrow> (string \<rightharpoonup> int) \<Rightarrow> string set \<Rightarrow> (error + pyfloat) option" where
  "calculate_expression G expression patterns constants functions operations
                        precedence right_associative =
     (case tokenize_expression expression patterns of
        None \<Rightarrow> None
      | Some (Inl e) \<Rightarrow> Some (Inl e)
      | Some (Inr tokens) \<Rightarrow>
          (case build_syntax_tree tokens constants functions precedence right_associative of
             Inl e \<Rightarrow> Some (Inl e)
           | Inr tree \<Rightarrow> Some (evaluate_expression_tree G tree operations functions)))"

text \<open>
  The script binds the six tables at module level under \<^verbatim>\<open>if __name__ == "__main__"\<close>
  and passes them to every call: there the global \<^verbatim>\<open>operations\<close> and \<^verbatim>\<open>functions\<close> are
  the tables that are passed.
\<close>

definition main_globals :: globals where
  "main_globals =
     \<lparr>g_operations = Some create_operations_map, g_functions = Some create_functions_map\<rparr>"

definition calculate :: "string \<Rightarrow> (error + pyfloat) option" where
  "calculate expression =
     calculate_expression main_globals expression get_compiled_patterns create_constants_map
       create_functions_map create_operations_map create_precedence_map
       create_right_associative_set"

text \<open>The parser with the tables of the script.\<close>

definition parse :: "token list \<Rightarrow> error + node" where
  "parse tokens =
     build_syntax_tree tokens create_constants_map create_functions_map
       create_precedence_map create_right_associative_set"

section \<open>Evaluating the definitions on concrete inputs\<close>

lemmas lexer_defs = tokenize_expression_def tokenize_loop.simps get_compiled_patterns_def
  create_token_patterns_def is_digit_def is_space_def

lemmas parser_defs = build_syntax_tree_def process_token_def create_number_node_def
  create_constant_node_def py_float_def digits_value_def digit_value_def should_be_unary_def
  process_unary_operator_def create_operator_node_def create_function_node_def
  create_unary_node_def list_pop_def can_pop_operator_def pop_operator_and_create_node_def
  process_right_parenthesis_def create_constants_map_def create_functions_map_def
  create_precedence_map_def create_right_associative_set_def Let_def

lemmas parser_step_defs = build_syntax_tree_def process_token_def
  create_constant_node_def should_be_unary_def
  process_unary_operator_def create_operator_node_def create_function_node_def
  create_unary_node_def list_pop_def can_pop_operator_def pop_operator_and_create_node_def
  process_right_parenthesis_def create_constants_map_def create_functions_map_def
  create_precedence_map_def create_right_associative_set_def Let_def

lemmas evaluator_defs = main_globals_def create_operations_map_def py_sub_def
  is_integral_def is_odd_integral_def int_power_def

lemmas pipeline_defs = calculate_def calculate_expression_def lexer_defs parser_defs
  evaluator_defs

section \<open>The evaluator and the tables it is given\<close>

text \<open>
  Claim C1 says that evaluating a node uses the operator table and the function table
  that were passed as arguments, in every recursive call, and never depends on tables
  other than the arguments. The code does not do this. Three evaluations with the same
  arguments, the tables of \<^verbatim>\<open>create_operations_map\<close> and \<^verbatim>\<open>create_functions_map\<close>:
  with the global names unbound, \<^verbatim>\<open>1 + 2\<close> raises \<^verbatim>\<open>NameError\<close> for \<^verbatim>\<open>functions\<close>;
  with the global names bound to empty tables, \<^verbatim>\<open>abs(1) + 2\<close> raises \<^verbatim>\<open>KeyError\<close>,
  because \<^verbatim>\<open>abs\<close> is looked up in the global table and not in the one passed; with
  the global names bound as the script binds them, the same tree gives 3.
\<close>

theorem evaluate_depends_on_module_globals:
  "evaluate_expression_tree \<lparr>g_operations = None, g_functions = None\<rparr>
     (Node ''OPERATOR'' (Some (VStr ''+''))
        (Some (Node ''NUMBER'' (Some (VFloat (Fin 1))) None None))
        (Some (Node ''NUMBER'' (Some (VFloat (Fin 2))) None None)))
     create_operations_map create_functions_map = Inl (NameError ''functions'')
   \<and> evaluate_expression_tree \<lparr>g_operations = Some Map.empty, g_functions = Some Map.empty\<rparr>
     (Node ''OPERATOR'' (Some (VStr ''+''))
        (Some (Node ''FUNCTION'' (Some (VStr ''abs''))
                 (Some (Node ''NUMBER'' (Some (VFloat (Fin 1))) None None)) None))
        (Some (Node ''NUMBER'' (Some (VFloat (Fin 2))) None None)))
     create_operations_map create_functions_map = Inl KeyError
   \<and> evaluate_expression_tree main_globals
     (Node ''OPERATOR'' (Some (VStr ''+''))
        (Some (Node ''FUNCTION'' (Some (VStr ''abs''))
                 (Some (Node ''NUMBER'' (Some (VFloat (Fin 1))) None None)) None))
        (Some (Node ''NUMBER'' (Some (VFloat (Fin 2))) None None)))
     create_operations_map create_functions_map = Inr (Fin 3)"
  by (simp add: evaluator_defs create_functions_map_def)

section \<open>Failures of the parser and of the evaluator\<close>

text \<open>
  Claim C2 says that parsing returns one node or fails with a parse error, and that for
  a trailing binary operator, as in \<^verbatim>\<open>3 +\<close>, the failure is a parse error and not a pop
  from an empty stack. The parse errors of the source are its \<^verbatim>\<open>ValueError\<close>s. On the
  tokens of \<^verbatim>\<open>3 +\<close> the code raises \<^verbatim>\<open>IndexError\<close>: draining the operator stack pops
  the right operand and then pops the empty output stack for the left one.
\<close>

theorem trailing_operator_raises_index_error:
  "build_syntax_tree [(''NUMBER'', ''3''), (''OPERATOR'', ''+'')] create_constants_map
     create_functions_map create_precedence_map create_right_associative_set = Inl IndexError
   \<and> calculate ''3 +'' = Some (Inl IndexError)"
  by (simp add: pipeline_defs)

text \<open>
  Claim C3 says that evaluation fails only for a symbol that is missing from its table
  or for an unknown node type, so that a call of \<^verbatim>\<open>log\<close>, which is in the function
  table, returns a float for every operand. The code raises for the operand 0:
  \<^verbatim>\<open>math.log\<close> is entered in the table without a guard, and it raises
  \<^verbatim>\<open>ValueError: math domain error\<close> at zero.
\<close>

theorem log_of_zero_raises:
  "create_functions_map ''log'' = Some math_log
   \<and> evaluate_expression_tree main_globals
       (Node ''FUNCTION'' (Some (VStr ''log''))
          (Some (Node ''NUMBER'' (Some (VFloat (Fin 0))) None None)) None)
       create_operations_map create_functions_map = Inl (ValueError Math_Domain)
   \<and> calculate ''log(0)'' = Some (Inl (ValueError Math_Domain))"
  by (simp add: pipeline_defs)

section \<open>Precedence and associativity\<close>

text \<open>
  Claim C5: the power operator is right-associative; the pipeline evaluates
  \<^verbatim>\<open>2 ^ 3 ^ 2\<close> to 512, which is \<^verbatim>\<open>2 ^ (3 ^ 2)\<close>, and not to 64.
\<close>

theorem power_is_right_associative:
  "calculate ''2 ^ 3 ^ 2'' = Some (Inr (Fin 512))"
  by (simp add: pipeline_defs)

text \<open>
  Claim C8: precedence and brackets are respected; the pipeline evaluates
  \<^verbatim>\<open>3 + 5 * 2\<close> to 13 and \<^verbatim>\<open>(3 + 5) * 2\<close> to 16. For every two binary operators and
  every three number tokens, the tree of \<^verbatim>\<open>a o1 b o2 c\<close> groups the left pair when \<^verbatim>\<open>o1\<close>
  has the higher precedence, or the same precedence with \<^verbatim>\<open>o2\<close> not right-associative,
  and the right pair otherwise; brackets around either pair decide the grouping whatever
  the precedences are. The strings \<^verbatim>\<open>3 * 5 + 2\<close> and \<^verbatim>\<open>10 / 2 - 3\<close> are instances where
  the left pair is reduced first.
\<close>

theorem precedence_and_grouping:
  assumes "o1 \<in> set [''+'', ''-'', ''*'', ''/'', ''^'']"
    and "o2 \<in> set [''+'', ''-'', ''*'', ''/'', ''^'']"
    and "create_number_node a = Inr x"
    and "create_number_node b = Inr y"
    and "create_number_node c = Inr z"
  shows "calculate ''3 + 5 * 2'' = Some (Inr (Fin 13))
   \<and> calculate ''(3 + 5) * 2'' = Some (Inr (Fin 16))
   \<and> calculate ''3 * 5 + 2'' = Some (Inr (Fin 17))
   \<and> calculate ''10 / 2 - 3'' = Some (Inr (Fin 2))
   \<and> parse [(''NUMBER'', a), (''OPERATOR'', o1), (''NUMBER'', b), (''OPERATOR'', o2),
             (''NUMBER'', c)]
      = Inr (if the (create_precedence_map o1) > the (create_precedence_map o2)
                \<or> (the (create_precedence_map o1) = the (create_precedence_map o2)
                    \<and> o2 \<notin> create_right_associative_set)
             then create_operator_node o2 (create_operator_node o1 x y) z
             else create_operator_node o1 x (create_operator_node o2 y z))
   \<and> parse [(''PAREN'', ''(''), (''NUMBER'', a), (''OPERATOR'', o1), (''NUMBER'', b),
             (''PAREN'', '')''), (''OPERATOR'', o2), (''NUMBER'', c)]
      = Inr (create_operator_node o2 (create_operator_node o1 x y) z)
   \<and> parse [(''NUMBER'', a), (''OPERATOR'', o1), (''PAREN'', ''(''), (''NUMBER'', b),
             (''OPERATOR'', o2), (''NUMBER'', c), (''PAREN'', '')'')]
      = Inr (create_operator_node o1 x (create_operator_node o2 y z))"
proof -
  have "calculate ''3 + 5 * 2'' = Some (Inr (Fin 13))"
    by (simp add: pipeline_defs)
  moreover have "calculate ''(3 + 5) * 2'' = Some (Inr (Fin 16))"
    by (simp add: pipeline_defs)
  moreover have "calculate ''3 * 5 + 2'' = Some (Inr (Fin 17))"
    by (simp add: pipeline_defs)
  moreover have "calculate ''10 / 2 - 3'' = Some (Inr (Fin 2))"
    by (simp add: pipeline_defs)
  moreover have "parse [(''NUMBER'', a), (''OPERATOR'', o1), (''NUMBER'', b),
             (''OPERATOR'', o2), (''NUMBER'', c)]
      = Inr (if the (create_precedence_map o1) > the (create_precedence_map o2)
                \<or> (the (create_precedence_map o1) = the (create_precedence_map o2)
                    \<and> o2 \<notin> create_right_associative_set)
             then create_operator_node o2 (create_operator_node o1 x y) z
             else create_operator_node o1 x (create_operator_node o2 y z))"
    using assms
    apply (simp only: list.set insert_iff empty_iff simp_thms)
    apply (elim disjE)
    apply (simp_all add: parse_def parser_step_defs)
    done
  moreover have "parse [(''PAREN'', ''(''), (''NUMBER'', a), (''OPERATOR'', o1),
             (''NUMBER'', b), (''PAREN'', '')''), (''OPERATOR'', o2), (''NUMBER'', c)]
      = Inr (create_operator_node o2 (create_operator_node o1 x y) z)"
    using assms
    apply (simp only: list.set insert_iff empty_iff simp_thms)
    apply (elim disjE)
    apply (simp_all add: parse_def parser_step_defs)
    done
  moreover have "parse [(''NUMBER'', a), (''OPERATOR'', o1), (''PAREN'', ''(''),
             (''NUMBER'', b), (''OPERATOR'', o2), (''NUMBER'', c), (''PAREN'', '')'')]
      = Inr (create_operator_node o1 x (create_operator_node o2 y z))"
    using assms
    apply (simp only: list.set insert_iff empty_iff simp_thms)
    apply (elim disjE)
    apply (simp_all add: parse_def parser_step_defs)
    done
  ultimately show ?thesis by blast
qed

text \<open>The tokens of \<^verbatim>\<open>3 * 5 + 2\<close>: the product is reduced before the sum is pushed.\<close>

theorem precedence_and_grouping_witness:
  "''*'' \<in> set [''+'', ''-'', ''*'', ''/'', ''^'']
   \<and> ''+'' \<in> set [''+'', ''-'', ''*'', ''/'', ''^'']
   \<and> create_number_node ''3'' = Inr (Node ''NUMBER'' (Some (VFloat (Fin 3))) None None)
   \<and> create_number_node ''5'' = Inr (Node ''NUMBER'' (Some (VFloat (Fin 5))) None None)
   \<and> create_number_node ''2'' = Inr (Node ''NUMBER'' (Some (VFloat (Fin 2))) None None)
   \<and> parse [(''NUMBER'', ''3''), (''OPERATOR'', ''*''), (''NUMBER'', ''5''),
             (''OPERATOR'', ''+''), (''NUMBER'', ''2'')]
      = Inr (create_operator_node ''+''
               (create_operator_node ''*''
                  (Node ''NUMBER'' (Some (VFloat (Fin 3))) None None)
                  (Node ''NUMBER'' (Some (VFloat (Fin 5))) None None))
               (Node ''NUMBER'' (Some (VFloat (Fin 2))) None None))"
proof -
  have o1: "''*'' \<in> set [''+'', ''-'', ''*'', ''/'', ''^'']" by simp
  have o2: "''+'' \<in> set [''+'', ''-'', ''*'', ''/'', ''^'']" by simp
  have a: "create_number_node ''3'' = Inr (Node ''NUMBER'' (Some (VFloat (Fin 3))) None None)"
    by (simp add: parser_defs is_digit_def)
  have b: "create_number_node ''5'' = Inr (Node ''NUMBER'' (Some (VFloat (Fin 5))) None None)"
    by (simp add: parser_defs is_digit_def)
  have c: "create_number_node ''2'' = Inr (Node ''NUMBER'' (Some (VFloat (Fin 2))) None None)"
    by (simp add: parser_defs is_digit_def)
  have "parse [(''NUMBER'', ''3''), (''OPERATOR'', ''*''), (''NUMBER'', ''5''),
             (''OPERATOR'', ''+''), (''NUMBER'', ''2'')]
      = Inr (create_operator_node ''+''
               (create_operator_node ''*''
                  (Node ''NUMBER'' (Some (VFloat (Fin 3))) None None)
                  (Node ''NUMBER'' (Some (VFloat (Fin 5))) None None))
               (Node ''NUMBER'' (Some (VFloat (Fin 2))) None None))"
    using precedence_and_grouping [OF o1 o2 a b c]
    by (simp add: create_precedence_map_def)
  with o1 o2 a b c show ?thesis by blast
qed

section \<open>Unary and binary signs\<close>

text \<open>
  Claim C6: a \<^verbatim>\<open>+\<close> or \<^verbatim>\<open>-\<close> OPERATOR token is read as unary exactly when it is the first
  token, or comes right after \<^verbatim>\<open>(\<close>, or comes right after another operator, a unary
  one included; so the pipeline evaluates \<^verbatim>\<open>3 + -2\<close> to 1, \<^verbatim>\<open>-5 + 3\<close> to -2 and
  \<^verbatim>\<open>-sin(pi/2)\<close> to -1. For a sign \<open>cv\<close>: \<^verbatim>\<open>should_be_unary\<close> holds exactly in the three
  positions; the parser's step on the token reduces and pushes the unary symbol
  \<^verbatim>\<open>u+\<close> or \<^verbatim>\<open>u-\<close> in these positions and the sign itself in every other, and records
  what it pushed as the previous token; and the tree of a sign before a number is a
  unary node when the sign is first, after \<^verbatim>\<open>(\<close>, after a binary operator or after
  another sign, and a binary node after a number or after \<^verbatim>\<open>)\<close>.
\<close>

theorem unary_disambiguation:
  assumes "cv = ''+'' \<or> cv = ''-''"
    and "cw = ''+'' \<or> cw = ''-''"
    and "o1 \<in> set [''+'', ''-'', ''*'', ''/'', ''^'']"
    and "create_number_node a = Inr x"
    and "create_number_node b = Inr y"
  shows "should_be_unary ''OPERATOR'' cv pt pv =
        (pt = None \<or> (pt = Some ''PAREN'' \<and> pv = Some ''('') \<or> pt = Some ''OPERATOR'')
   \<and> process_token constants functions precedence right_associative st (''OPERATOR'', cv) =
       (let token_value =
              (if previous_token_type st = None
                  \<or> (previous_token_type st = Some ''PAREN''
                      \<and> previous_token_value st = Some ''('')
                  \<or> previous_token_type st = Some ''OPERATOR''
               then ''u'' @ cv else cv) in
        case reduce_while_can_pop token_value (operator_stack st) (output_stack st)
               functions precedence right_associative of
          Inl e \<Rightarrow> Inl e
        | Inr (ops, out) \<Rightarrow>
            Inr (st\<lparr>output_stack := out, operator_stack := ops @ [token_value],
                    previous_token_type := Some ''OPERATOR'',
                    previous_token_value := Some token_value\<rparr>))
   \<and> parse [(''OPERATOR'', cv), (''NUMBER'', a)] = Inr (create_unary_node (''u'' @ cv) x)
   \<and> parse [(''PAREN'', ''(''), (''OPERATOR'', cv), (''NUMBER'', a), (''PAREN'', '')'')]
      = Inr (create_unary_node (''u'' @ cv) x)
   \<and> parse [(''NUMBER'', b), (''OPERATOR'', o1), (''OPERATOR'', cv), (''NUMBER'', a)]
      = Inr (create_operator_node o1 y (create_unary_node (''u'' @ cv) x))
   \<and> parse [(''OPERATOR'', cw), (''OPERATOR'', cv), (''NUMBER'', a)]
      = Inr (create_unary_node (''u'' @ cw) (create_unary_node (''u'' @ cv) x))
   \<and> parse [(''NUMBER'', b), (''OPERATOR'', cv), (''NUMBER'', a)]
      = Inr (create_operator_node cv y x)
   \<and> parse [(''PAREN'', ''(''), (''NUMBER'', b), (''PAREN'', '')''), (''OPERATOR'', cv),
             (''NUMBER'', a)]
      = Inr (create_operator_node cv y x)
   \<and> calculate ''3 + -2'' = Some (Inr (Fin 1))
   \<and> calculate ''-5 + 3'' = Some (Inr (Fin (- 2)))
   \<and> calculate ''--2'' = Some (Inr (Fin 2))
   \<and> calculate ''(-5)'' = Some (Inr (Fin (- 5)))
   \<and> calculate ''2 * (-3)'' = Some (Inr (Fin (- 6)))
   \<and> calculate ''-sin(pi/2)'' = Some (Inr (Fin (- 1)))"
proof -
  have su: "should_be_unary ''OPERATOR'' cv pt' pv' =
        (pt' = None \<or> (pt' = Some ''PAREN'' \<and> pv' = Some ''('') \<or> pt' = Some ''OPERATOR'')"
    for pt' pv'
    using assms(1) by (auto simp: should_be_unary_def)
  have pu: "process_unary_operator cv = ''u'' @ cv"
    using assms(1) by (auto simp: process_unary_operator_def)
  have step: "process_token constants functions precedence right_associative st
                (''OPERATOR'', cv) =
       (let token_value =
              (if previous_token_type st = None
                  \<or> (previous_token_type st = Some ''PAREN''
                      \<and> previous_token_value st = Some ''('')
                  \<or> previous_token_type st = Some ''OPERATOR''
               then ''u'' @ cv else cv) in
        case reduce_while_can_pop token_value (operator_stack st) (output_stack st)
               functions precedence right_associative of
          Inl e \<Rightarrow> Inl e
        | Inr (ops, out) \<Rightarrow>
            Inr (st\<lparr>output_stack := out, operator_stack := ops @ [token_value],
                    previous_token_type := Some ''OPERATOR'',
                    previous_token_value := Some token_value\<rparr>))"
    by (simp add: process_token_def Let_def su pu del: reduce_while_can_pop.simps
          cong: sum.case_cong prod.case_cong)
  have first: "parse [(''OPERATOR'', cv), (''NUMBER'', a)]
      = Inr (create_unary_node (''u'' @ cv) x)"
    using assms(1,4)
    apply (elim disjE)
    apply (simp_all add: parse_def parser_step_defs)
    done
  have paren: "parse [(''PAREN'', ''(''), (''OPERATOR'', cv), (''NUMBER'', a),
                      (''PAREN'', '')'')]
      = Inr (create_unary_node (''u'' @ cv) x)"
    using assms(1,4)
    apply (elim disjE)
    apply (simp_all add: parse_def parser_step_defs)
    done
  have oper: "parse [(''NUMBER'', b), (''OPERATOR'', o1), (''OPERATOR'', cv), (''NUMBER'', a)]
      = Inr (create_operator_node o1 y (create_unary_node (''u'' @ cv) x))"
    using assms(1,3,4,5)
    apply (simp only: list.set insert_iff empty_iff simp_thms)
    apply (elim disjE)
    apply (simp_all add: parse_def parser_step_defs)
    done
  have sign: "parse [(''OPERATOR'', cw), (''OPERATOR'', cv), (''NUMBER'', a)]
      = Inr (create_unary_node (''u'' @ cw) (create_unary_node (''u'' @ cv) x))"
    using assms(1,2,4)
    apply (elim disjE)
    apply (simp_all add: parse_def parser_step_defs)
    done
  have number: "parse [(''NUMBER'', b), (''OPERATOR'', cv), (''NUMBER'', a)]
      = Inr (create_operator_node cv y x)"
    using assms(1,4,5)
    apply (elim disjE)
    apply (simp_all add: parse_def parser_step_defs)
    done
  have closing: "parse [(''PAREN'', ''(''), (''NUMBER'', b), (''PAREN'', '')''),
                        (''OPERATOR'', cv), (''NUMBER'', a)]
      = Inr (create_operator_node cv y x)"
    using assms(1,4,5)
    apply (elim disjE)
    apply (simp_all add: parse_def parser_step_defs)
    done
  have e1: "calculate ''3 + -2'' = Some (Inr (Fin 1))"
    by (simp add: pipeline_defs)
  have e2: "calculate ''-5 + 3'' = Some (Inr (Fin (- 2)))"
    by (simp add: pipeline_defs)
  have e3: "calculate ''--2'' = Some (Inr (Fin 2))"
    by (simp add: pipeline_defs)
  have e4: "calculate ''(-5)'' = Some (Inr (Fin (- 5)))"
    by (simp add: pipeline_defs)
  have e5: "calculate ''2 * (-3)'' = Some (Inr (Fin (- 6)))"
    by (simp add: pipeline_defs)
  have e6: "calculate ''-sin(pi/2)'' = Some (Inr (Fin (- 1)))"
    by (simp add: pipeline_defs)
  show ?thesis
    by (intro conjI su step first paren oper sign number closing e1 e2 e3 e4 e5 e6)
qed

text \<open>
  A minus before the number 5: after \<^verbatim>\<open>(\<close> the tree is a unary node and the rule holds,
  after the number 3 the tree is a binary node and the rule does not hold.
\<close>

theorem unary_disambiguation_witness:
  "(''-'' = ''+'' \<or> ''-'' = ''-'')
   \<and> ''+'' \<in> set [''+'', ''-'', ''*'', ''/'', ''^'']
   \<and> create_number_node ''5'' = Inr (Node ''NUMBER'' (Some (VFloat (Fin 5))) None None)
   \<and> create_number_node ''3'' = Inr (Node ''NUMBER'' (Some (VFloat (Fin 3))) None None)
   \<and> should_be_unary ''OPERATOR'' ''-'' (Some ''PAREN'') (Some ''('')
   \<and> \<not> should_be_unary ''OPERATOR'' ''-'' (Some ''NUMBER'') (Some ''3'')
   \<and> parse [(''PAREN'', ''(''), (''OPERATOR'', ''-''), (''NUMBER'', ''5''), (''PAREN'', '')'')]
      = Inr (create_unary_node ''u-'' (Node ''NUMBER'' (Some (VFloat (Fin 5))) None None))
   \<and> parse [(''NUMBER'', ''3''), (''OPERATOR'', ''-''), (''NUMBER'', ''5'')]
      = Inr (create_operator_node ''-''
               (Node ''NUMBER'' (Some (VFloat (Fin 3))) None None)
               (Node ''NUMBER'' (Some (VFloat (Fin 5))) None None))"
proof -
  have cv: "''-'' = ''+'' \<or> ''-'' = ''-''" by simp
  have o1: "''+'' \<in> set [''+'', ''-'', ''*'', ''/'', ''^'']" by simp
  have a: "create_number_node ''5'' = Inr (Node ''NUMBER'' (Some (VFloat (Fin 5))) None None)"
    by (simp add: parser_defs is_digit_def)
  have b: "create_number_node ''3'' = Inr (Node ''NUMBER'' (Some (VFloat (Fin 3))) None None)"
    by (simp add: parser_defs is_digit_def)
  note t1 = unary_disambiguation [OF cv cv o1 a b, where pt = "Some ''PAREN''"
    and pv = "Some ''(''"]
  note t2 = unary_disambiguation [OF cv cv o1 a b, where pt = "Some ''NUMBER''"
    and pv = "Some ''3''"]
  have "should_be_unary ''OPERATOR'' ''-'' (Some ''PAREN'') (Some ''('')"
    using t1 by simp
  moreover have "\<not> should_be_unary ''OPERATOR'' ''-'' (Some ''NUMBER'') (Some ''3'')"
    using t2 by simp
  moreover have "parse [(''PAREN'', ''(''), (''OPERATOR'', ''-''), (''NUMBER'', ''5''),
                        (''PAREN'', '')'')]
      = Inr (create_unary_node ''u-'' (Node ''NUMBER'' (Some (VFloat (Fin 5))) None None))"
    using t1 by simp
  moreover have "parse [(''NUMBER'', ''3''), (''OPERATOR'', ''-''), (''NUMBER'', ''5'')]
      = Inr (create_operator_node ''-''
               (Node ''NUMBER'' (Some (VFloat (Fin 3))) None None)
               (Node ''NUMBER'' (Some (VFloat (Fin 5))) None None))"
    using t1 by simp
  ultimately show ?thesis using cv o1 a b by blast
qed

section \<open>Division by zero\<close>

text \<open>
  Claim C7: for every dividend, a division whose divisor is exactly zero gives positive
  infinity and raises nothing; so \<^verbatim>\<open>1/0\<close>, \<^verbatim>\<open>-1/0\<close> and \<^verbatim>\<open>0/0\<close> all evaluate to
  positive infinity. This holds for the entry of \<^verbatim>\<open>/\<close> in the operation table, for
  every division node whose operands evaluate, and for the three strings.
\<close>

theorem division_by_zero_is_infinity:
  assumes "evaluate_expression_tree main_globals l create_operations_map create_functions_map
             = Inr a"
    and "evaluate_expression_tree main_globals r create_operations_map create_functions_map
             = Inr (Fin 0)"
  shows "evaluate_expression_tree main_globals (create_operator_node ''/'' l r)
           create_operations_map create_functions_map = Inr PInf
         \<and> (\<exists>f. create_operations_map ''/'' = Some f \<and> (\<forall>b. f b (Fin 0) = Inr PInf))
         \<and> calculate ''1/0'' = Some (Inr PInf)
         \<and> calculate ''-1/0'' = Some (Inr PInf)
         \<and> calculate ''0/0'' = Some (Inr PInf)"
proof -
  have "evaluate_expression_tree main_globals (create_operator_node ''/'' l r)
           create_operations_map create_functions_map = Inr PInf"
    using assms by (simp add: create_operator_node_def main_globals_def create_operations_map_def)
  moreover have "\<exists>f. create_operations_map ''/'' = Some f \<and> (\<forall>b. f b (Fin 0) = Inr PInf)"
    by (simp add: create_operations_map_def)
  moreover have "calculate ''1/0'' = Some (Inr PInf)"
    by (simp add: pipeline_defs)
  moreover have "calculate ''-1/0'' = Some (Inr PInf)"
    by (simp add: pipeline_defs)
  moreover have "calculate ''0/0'' = Some (Inr PInf)"
    by (simp add: pipeline_defs)
  ultimately show ?thesis by blast
qed

text \<open>The division node of \<^verbatim>\<open>-1/0\<close>: a negated 1 over a literal 0.\<close>

theorem division_by_zero_is_infinity_witness:
  "evaluate_expression_tree main_globals
     (create_unary_node ''u-'' (Node ''NUMBER'' (Some (VFloat (Fin 1))) None None))
     create_operations_map create_functions_map = Inr (Fin (- 1))
   \<and> evaluate_expression_tree main_globals
     (Node ''NUMBER'' (Some (VFloat (Fin 0))) None None)
     create_operations_map create_functions_map = Inr (Fin 0)
   \<and> evaluate_expression_tree main_globals
     (create_operator_node ''/''
        (create_unary_node ''u-'' (Node ''NUMBER'' (Some (VFloat (Fin 1))) None None))
        (Node ''NUMBER'' (Some (VFloat (Fin 0))) None None))
     create_operations_map create_functions_map = Inr PInf"
proof -
  have l: "evaluate_expression_tree main_globals
     (create_unary_node ''u-'' (Node ''NUMBER'' (Some (VFloat (Fin 1))) None None))
     create_operations_map create_functions_map = Inr (Fin (- 1))"
    by (simp add: create_unary_node_def main_globals_def)
  have r: "evaluate_expression_tree main_globals
     (Node ''NUMBER'' (Some (VFloat (Fin 0))) None None)
     create_operations_map create_functions_map = Inr (Fin 0)"
    by simp
  from division_by_zero_is_infinity [OF l r] l r show ?thesis by blast
qed

section \<open>The symbols of the tables\<close>

text \<open>
  Claim C9 says that every symbol of the precedence map or of the right-associative
  set, the unary symbols included, has an entry in a behaviour map, the operation table
  or the function table. As stated this fails for the unary minus: it has a precedence
  and is right-associative, and neither table has an entry for it.
\<close>

theorem unary_minus_has_no_behavior_entry:
  "create_precedence_map ''u-'' = Some 4 \<and> ''u-'' \<in> create_right_associative_set
   \<and> create_operations_map ''u-'' = None \<and> create_functions_map ''u-'' = None"
  by (simp add: create_precedence_map_def create_right_associative_set_def
       create_operations_map_def create_functions_map_def)

text \<open>
  Claim C9, amended: the symbols of the precedence map and of the right-associative set
  are the keys of the operation table and the two unary symbols \<^verbatim>\<open>u-\<close> and \<^verbatim>\<open>u+\<close>; the
  unary symbols have no entry in either behaviour map and are evaluated by
  \<^verbatim>\<open>evaluate_unary_node\<close>, which negates for \<^verbatim>\<open>u-\<close> and returns its operand otherwise.
\<close>

theorem precedence_symbols_are_binary_or_unary:
  "dom create_precedence_map \<union> create_right_associative_set
     = dom create_operations_map \<union> {''u-'', ''u+''}
   \<and> {''u-'', ''u+''} \<inter> (dom create_operations_map \<union> dom create_functions_map) = {}
   \<and> evaluate_expression_tree main_globals
        (create_unary_node op (Node ''NUMBER'' (Some (VFloat x)) None None))
        create_operations_map create_functions_map
      = Inr (if op = ''u-'' then py_neg x else x)"
  by (auto simp: create_precedence_map_def create_right_associative_set_def
       create_operations_map_def create_functions_map_def main_globals_def
       create_unary_node_def)

section \<open>Keywords in the lexer\<close>

text \<open>
  Claim C4 says that the keywords are matched as whole tokens through anchoring and not
  as prefixes, so that lexing \<^verbatim>\<open>sine\<close> does not give a FUNCTION token \<^verbatim>\<open>sin\<close> and then
  a CONSTANT token \<^verbatim>\<open>e\<close>. That is what lexing \<^verbatim>\<open>sine\<close> gives: the patterns have no
  anchor at their end, and \<^verbatim>\<open>Pattern.match\<close> fixes only the start of the match.
\<close>

theorem sine_lexes_as_sin_then_e:
  "tokenize_expression ''sine'' get_compiled_patterns =
     Some (Inr [(''FUNCTION'', ''sin''), (''CONSTANT'', ''e'')])"
  by (simp add: lexer_defs)

text \<open>
  Claim C4, amended: the keywords are matched as prefixes of the text at the current
  position. Where the text at the position starts with a function name, the match is a
  FUNCTION token of that name whatever follows it; where it starts with \<^verbatim>\<open>pi\<close>, the
  match is the CONSTANT token \<^verbatim>\<open>pi\<close> whatever follows; where it starts with \<^verbatim>\<open>e\<close>, the
  match is the CONSTANT token \<^verbatim>\<open>e\<close> unless \<^verbatim>\<open>xp\<close> follows, which makes it the function
  name \<^verbatim>\<open>exp\<close>.
\<close>

theorem keywords_match_as_prefixes:
  "(k \<in> set [''sin'', ''cos'', ''tan'', ''sqrt'', ''log'', ''exp'', ''abs''] \<longrightarrow>
      match_token_at_position (pre @ k @ rest) (length pre) get_compiled_patterns
        = Some (Some ''FUNCTION'', k, length pre + length k))
   \<and> match_token_at_position (pre @ ''pi'' @ rest) (length pre) get_compiled_patterns
        = Some (Some ''CONSTANT'', ''pi'', length pre + 2)
   \<and> (take 2 rest \<noteq> ''xp'' \<longrightarrow>
      match_token_at_position (pre @ ''e'' @ rest) (length pre) get_compiled_patterns
        = Some (Some ''CONSTANT'', ''e'', length pre + 1))"
  by (auto simp: get_compiled_patterns_def create_token_patterns_def is_digit_def
        numeral_2_eq_2)

text \<open>The two matches in \<^verbatim>\<open>sine\<close>: \<^verbatim>\<open>sin\<close> at position 0 and \<^verbatim>\<open>e\<close> at position 3.\<close>

theorem keywords_match_as_prefixes_witness:
  "''sin'' \<in> set [''sin'', ''cos'', ''tan'', ''sqrt'', ''log'', ''exp'', ''abs'']
   \<and> match_token_at_position ''sine'' 0 get_compiled_patterns
        = Some (Some ''FUNCTION'', ''sin'', 3)
   \<and> take 2 [] \<noteq> ''xp''
   \<and> match_token_at_position ''sine'' 3 get_compiled_patterns
        = Some (Some ''CONSTANT'', ''e'', 4)"
  using keywords_match_as_prefixes [of "''sin''" "[]" "''e''"]
    keywords_match_as_prefixes [of "''sin''" "''sin''" "[]"]
  by (simp add: eval_nat_numeral)

section \<open>The token texts reproduce the input\<close>

lemma digit_not_space: "is_digit c \<Longrightarrow> \<not> is_space c"
  by (auto simp: is_digit_def is_space_def)

lemma take_length_takeWhile: "take (length (takeWhile P xs)) xs = takeWhile P xs"
  by (induction xs) auto

lemma number_match:
  assumes "pattern_match Number_Pattern s = Some n"
  shows "0 < n \<and> n \<le> length s \<and> (\<forall>c \<in> set (take n s). \<not> is_space c)"
proof -
  let ?ip = "takeWhile is_digit s" and ?rest = "dropWhile is_digit s"
  have s: "s = ?ip @ ?rest" by simp
  have ip: "?ip \<noteq> []" using assms by (auto simp: Let_def split: if_splits)
  have ipd: "\<forall>c \<in> set ?ip. \<not> is_space c"
    by (auto dest: set_takeWhileD digit_not_space)
  have len: "length ?ip \<le> length s" by (rule length_takeWhile_le)
  show ?thesis
  proof (cases "\<exists>r. ?rest = CHR ''.'' # r \<and> takeWhile is_digit r \<noteq> []")
    case True
    then obtain r where r: "?rest = CHR ''.'' # r" "takeWhile is_digit r \<noteq> []" by blast
    let ?fp = "takeWhile is_digit r"
    have n: "n = length ?ip + 1 + length ?fp"
      using assms ip r by (simp add: Let_def)
    have s': "s = ?ip @ CHR ''.'' # r" using s r by simp
    have "take n s = take n (?ip @ CHR ''.'' # r)" using s' by simp
    also have "\<dots> = ?ip @ CHR ''.'' # take (length ?fp) r" by (simp add: n)
    also have "\<dots> = ?ip @ CHR ''.'' # ?fp" by (simp add: take_length_takeWhile)
    finally have t: "take n s = ?ip @ CHR ''.'' # ?fp" .
    have "\<forall>c \<in> set ?fp. \<not> is_space c"
      by (auto dest: set_takeWhileD digit_not_space)
    moreover have "\<not> is_space CHR ''.''" by (simp add: is_space_def)
    ultimately have "\<forall>c \<in> set (take n s). \<not> is_space c"
      using ipd by (auto simp: t)
    moreover have "length s = length ?ip + 1 + length r"
      by (subst s') simp
    moreover have "length ?fp \<le> length r" by (rule length_takeWhile_le)
    ultimately show ?thesis using n by simp
  next
    case False
    then have n: "n = length ?ip"
      using assms ip by (auto simp: Let_def split: list.splits if_splits)
    have "take n s = ?ip" by (simp add: n take_length_takeWhile)
    then show ?thesis using ipd ip len n by simp
  qed
qed

lemma find_Some_mem: "find P xs = Some x \<Longrightarrow> x \<in> set xs \<and> P x"
  by (induction xs) (auto split: if_splits)

lemma alternatives_match:
  assumes "pattern_match (Alternatives ks) s = Some n"
  shows "\<exists>k \<in> set ks. n = length k \<and> take n s = k"
proof -
  from assms obtain k where f: "find (\<lambda>k. take (length k) s = k) ks = Some k" and n: "n = length k"
    by auto
  from find_Some_mem [OF f] have "k \<in> set ks" "take (length k) s = k" by simp_all
  with n show ?thesis by blast
qed

lemma one_of_match:
  assumes "pattern_match (One_Of cs) s = Some n"
  shows "n = 1 \<and> s \<noteq> [] \<and> hd s \<in> set cs"
  using assms by (auto split: list.splits if_splits)

lemma whitespace_match:
  assumes "pattern_match Whitespace s = Some n"
  shows "0 < n \<and> n \<le> length s \<and> (\<forall>c \<in> set (take n s). is_space c)"
proof -
  have n: "n = length (takeWhile is_space s)" and ne: "takeWhile is_space s \<noteq> []"
    using assms by (auto simp: Let_def split: if_splits)
  have "take n s = takeWhile is_space s" by (simp add: n take_length_takeWhile)
  then have "\<forall>c \<in> set (take n s). is_space c" by (auto dest: set_takeWhileD)
  then show ?thesis using n ne length_takeWhile_le [of is_space s] by simp
qed

lemma match_token_at_position_Some:
  "match_token_at_position e p ps = Some (ty, v, np) \<Longrightarrow>
     \<exists>pat n. (pat, ty) \<in> set ps \<and> pattern_match pat (drop p e) = Some n
        \<and> v = take n (drop p e) \<and> np = p + n"
proof (induction ps)
  case Nil
  then show ?case by simp
next
  case (Cons a ps)
  obtain pat' ty' where a: "a = (pat', ty')" by (cases a)
  show ?case
  proof (cases "pattern_match pat' (drop p e)")
    case None
    with Cons a show ?thesis by (auto simp del: pattern_match.simps)
  next
    case (Some n)
    with Cons.prems a have "ty = ty'" "v = take n (drop p e)" "np = p + n"
      by (simp_all del: pattern_match.simps)
    with Some a show ?thesis by (auto simp del: pattern_match.simps)
  qed
qed

lemma keyword_match:
  assumes "k \<noteq> []" and "\<forall>c \<in> set k. \<not> is_space c" and "n = length k" and "take n s = k"
  shows "0 < n \<and> n \<le> length s \<and> filter (\<lambda>c. \<not> is_space c) (take n s) = take n s"
proof -
  have "length (take n s) = n" using assms by simp
  then have "n \<le> length s" by simp
  moreover have "0 < n" using assms by simp
  moreover have "filter (\<lambda>c. \<not> is_space c) k = k" using assms(2) by (simp add: filter_id_conv)
  ultimately show ?thesis using assms(4) by simp
qed

lemma operator_char_match:
  assumes "pattern_match (One_Of cs) s = Some n" and "set cs \<subseteq> set ''+-*/^()''"
  shows "0 < n \<and> n \<le> length s \<and> filter (\<lambda>c. \<not> is_space c) (take n s) = take n s"
proof -
  from one_of_match [OF assms(1)] have "n = 1" "s \<noteq> []" "hd s \<in> set cs" by simp_all
  moreover from this assms(2) have "\<not> is_space (hd s)" by (auto simp: is_space_def)
  ultimately show ?thesis by (cases s) auto
qed

text \<open>
  What a match of the calculator's patterns consumes: at least one character, within the
  text, and either blanks only, with no token type, or no blank at all.
\<close>

lemma match_token_consumes:
  assumes "match_token_at_position e p get_compiled_patterns = Some (ty, v, np)"
  shows "\<exists>n. 0 < n \<and> n \<le> length (drop p e) \<and> np = p + n \<and> v = take n (drop p e)
         \<and> (case ty of
               None \<Rightarrow> filter (\<lambda>c. \<not> is_space c) v = []
             | Some t \<Rightarrow> t \<noteq> [] \<and> filter (\<lambda>c. \<not> is_space c) v = v)"
proof -
  let ?s = "drop p e"
  from match_token_at_position_Some [OF assms] obtain pat n where
    mem: "(pat, ty) \<in> set get_compiled_patterns" and m: "pattern_match pat ?s = Some n"
    and v: "v = take n ?s" and np: "np = p + n" by blast
  from mem have "(pat, ty) \<in> set create_token_patterns"
    by (simp only: get_compiled_patterns_def)
  then have "pat = Number_Pattern \<and> ty = Some ''NUMBER''
    \<or> pat = Alternatives [''sin'', ''cos'', ''tan'', ''sqrt'', ''log'', ''exp'', ''abs'']
        \<and> ty = Some ''FUNCTION''
    \<or> pat = Alternatives [''pi'', ''e''] \<and> ty = Some ''CONSTANT''
    \<or> pat = One_Of ''+-*/^'' \<and> ty = Some ''OPERATOR''
    \<or> pat = One_Of ''()'' \<and> ty = Some ''PAREN''
    \<or> pat = Whitespace \<and> ty = None"
    by (simp only: create_token_patterns_def list.set insert_iff empty_iff prod.inject simp_thms)
  then have "0 < n \<and> n \<le> length ?s
     \<and> (case ty of
           None \<Rightarrow> filter (\<lambda>c. \<not> is_space c) (take n ?s) = []
         | Some t \<Rightarrow> t \<noteq> [] \<and> filter (\<lambda>c. \<not> is_space c) (take n ?s) = take n ?s)"
  proof (elim disjE conjE)
    assume num: "pat = Number_Pattern" "ty = Some ''NUMBER''"
    with m have "pattern_match Number_Pattern ?s = Some n" by simp
    from number_match [OF this] num show ?thesis by (simp add: filter_id_conv)
  next
    assume func: "pat = Alternatives [''sin'', ''cos'', ''tan'', ''sqrt'', ''log'', ''exp'', ''abs'']"
      "ty = Some ''FUNCTION''"
    with m have "pattern_match (Alternatives [''sin'', ''cos'', ''tan'', ''sqrt'', ''log'', ''exp'', ''abs'']) ?s = Some n"
      by simp
    from alternatives_match [OF this] obtain k where
      "k \<in> set [''sin'', ''cos'', ''tan'', ''sqrt'', ''log'', ''exp'', ''abs'']"
      and k: "n = length k" "take n ?s = k" by blast
    then have "k \<noteq> []" "\<forall>c \<in> set k. \<not> is_space c" by (auto simp: is_space_def)
    from keyword_match [OF this k] func show ?thesis by simp
  next
    assume const: "pat = Alternatives [''pi'', ''e'']" "ty = Some ''CONSTANT''"
    with m have "pattern_match (Alternatives [''pi'', ''e'']) ?s = Some n" by simp
    from alternatives_match [OF this] obtain k where
      "k \<in> set [''pi'', ''e'']" and k: "n = length k" "take n ?s = k" by blast
    then have "k \<noteq> []" "\<forall>c \<in> set k. \<not> is_space c" by (auto simp: is_space_def)
    from keyword_match [OF this k] const show ?thesis by simp
  next
    assume oper: "pat = One_Of ''+-*/^''" "ty = Some ''OPERATOR''"
    with m have "pattern_match (One_Of ''+-*/^'') ?s = Some n" by simp
    from operator_char_match [OF this] oper show ?thesis by simp
  next
    assume paren: "pat = One_Of ''()''" "ty = Some ''PAREN''"
    with m have "pattern_match (One_Of ''()'') ?s = Some n" by simp
    from operator_char_match [OF this] paren show ?thesis by simp
  next
    assume ws: "pat = Whitespace" "ty = None"
    with m have "pattern_match Whitespace ?s = Some n" by simp
    from whitespace_match [OF this] ws show ?thesis by (simp add: filter_empty_conv)
  qed
  with v np show ?thesis by blast
qed


lemma tokenize_loop_correct:
  assumes "concat (map snd tokens) = filter (\<lambda>c. \<not> is_space c) (take position e)"
  shows "\<exists>r. tokenize_loop e get_compiled_patterns position tokens = Some r
           \<and> (\<forall>toks. r = Inr toks \<longrightarrow> concat (map snd toks) = filter (\<lambda>c. \<not> is_space c) e)"
  using assms
proof (induction "length e - position" arbitrary: position tokens rule: less_induct)
  case less
  show ?case
  proof (cases "position < length e")
    case False
    then show ?thesis using less.prems by (subst tokenize_loop.simps) simp
  next
    case True
    show ?thesis
    proof (cases "match_token_at_position e position get_compiled_patterns")
      case None
      with True show ?thesis by (subst tokenize_loop.simps) simp
    next
      case (Some m)
      obtain ty v np where m: "m = (ty, v, np)" by (cases m)
      from match_token_consumes [OF Some [unfolded m]] obtain n where
        n: "0 < n" "n \<le> length (drop position e)" "np = position + n"
           "v = take n (drop position e)"
        and f: "case ty of
                  None \<Rightarrow> filter (\<lambda>c. \<not> is_space c) v = []
                | Some t \<Rightarrow> t \<noteq> [] \<and> filter (\<lambda>c. \<not> is_space c) v = v"
        by blast
      let ?tokens = "case ty of Some t \<Rightarrow> if t \<noteq> [] then tokens @ [(t, v)] else tokens
                     | None \<Rightarrow> tokens"
      have tk: "take np e = take position e @ v"
        using n by (simp add: take_add)
      have inv: "concat (map snd ?tokens) = filter (\<lambda>c. \<not> is_space c) (take np e)"
        using f less.prems by (cases ty) (simp_all add: tk)
      have "length e - np < length e - position" using n True by simp
      from less.hyps [OF this inv]
      show ?thesis using True Some m by (subst tokenize_loop.simps) simp
    qed
  qed
qed

text \<open>
  Claim C10: for every input on which the lexer succeeds, the texts of the tokens, put
  together in order, are the input without its whitespace. With the calculator's
  patterns the lexer returns on every input, with tokens or with the error for a
  character that no pattern matches.
\<close>

theorem token_texts_reproduce_input:
  "(\<exists>r. tokenize_expression e get_compiled_patterns = Some r)
   \<and> (tokenize_expression e get_compiled_patterns = Some (Inr toks)
        \<longrightarrow> concat (map snd toks) = filter (\<lambda>c. \<not> is_space c) e)"
  using tokenize_loop_correct [of "[]" 0 e] by (auto simp: tokenize_expression_def)

text \<open>The tokens of \<^verbatim>\<open>1.5 * pi\<close>, and their texts put together.\<close>

theorem token_texts_reproduce_input_witness:
  "tokenize_expression ''1.5 * pi'' get_compiled_patterns
     = Some (Inr [(''NUMBER'', ''1.5''), (''OPERATOR'', ''*''), (''CONSTANT'', ''pi'')])
   \<and> concat (map snd [(''NUMBER'', ''1.5''), (''OPERATOR'', ''*''), (''CONSTANT'', ''pi'')])
     = filter (\<lambda>c. \<not> is_space c) ''1.5 * pi''"
proof -
  have t: "tokenize_expression ''1.5 * pi'' get_compiled_patterns
     = Some (Inr [(''NUMBER'', ''1.5''), (''OPERATOR'', ''*''), (''CONSTANT'', ''pi'')])"
    by (simp add: lexer_defs)
  from token_texts_reproduce_input
    [of "''1.5 * pi''" "[(''NUMBER'', ''1.5''), (''OPERATOR'', ''*''), (''CONSTANT'', ''pi'')]"] t
  show ?thesis by blast
qed

end
